theory Spec2Isabelle
  imports Main "HOL-Library.Word" "HOL-Library.AList"
begin

section \<open>JavaScript strings\<close>

text \<open>
  A JavaScript string is a sequence of 16-bit code units; \<open>length\<close>, \<open>trim\<close> and a
  regular expression without the \<open>u\<close> flag all work on code units.  String literals
  of the source are written through \<open>js\<close>, which reads an 8-bit character as the
  code unit of the same number (the source's literals stay within Latin-1).
\<close>

type_synonym char16 = "16 word"
type_synonym jsstring = "char16 list"

definition js :: "string \<Rightarrow> jsstring" where
  "js s = map (\<lambda>c. word_of_nat (of_char c)) s"

text \<open>
  The code units that \<open>String.prototype.trim\<close> strips and that \<open>\s\<close> matches:
  ECMAScript's WhiteSpace (TAB, VT, FF, SP, NBSP, ZWNBSP and the category Zs) and
  LineTerminator (LF, CR, LS, PS).
\<close>

definition isWhiteSpace :: "char16 \<Rightarrow> bool" where
  "isWhiteSpace c =
     (c = 0x9 \<or> c = 0xA \<or> c = 0xB \<or> c = 0xC \<or> c = 0xD \<or> c = 0x20 \<or> c = 0xA0 \<or>
      c = 0x1680 \<or> (0x2000 \<le> c \<and> c \<le> 0x200A) \<or> c = 0x2028 \<or> c = 0x2029 \<or>
      c = 0x202F \<or> c = 0x205F \<or> c = 0x3000 \<or> c = 0xFEFF)"

definition trim :: "jsstring \<Rightarrow> jsstring" where
  "trim s = rev (dropWhile isWhiteSpace (rev (dropWhile isWhiteSpace s)))"

section \<open>Regular expressions\<close>

text \<open>
  The two patterns of the configuration are anchored at both ends (\<open>^...$\<close>, no
  flags), so \<open>RegExp.prototype.test\<close> is a match of the whole string.  Patterns are
  kept as syntax trees and matched by derivatives.
\<close>

datatype rx =
    Never
  | Eps
  | Class "char16 \<Rightarrow> bool"
  | Seq rx rx
  | Alt rx rx
  | Star rx

definition Plus :: "rx \<Rightarrow> rx" where
  "Plus r = Seq r (Star r)"

fun nullable :: "rx \<Rightarrow> bool" where
  "nullable Never = False"
| "nullable Eps = True"
| "nullable (Class p) = False"
| "nullable (Seq r s) = (nullable r \<and> nullable s)"
| "nullable (Alt r s) = (nullable r \<or> nullable s)"
| "nullable (Star r) = True"

fun deriv :: "char16 \<Rightarrow> rx \<Rightarrow> rx" where
  "deriv c Never = Never"
| "deriv c Eps = Never"
| "deriv c (Class p) = (if p c then Eps else Never)"
| "deriv c (Seq r s) =
     (if nullable r then Alt (Seq (deriv c r) s) (deriv c s) else Seq (deriv c r) s)"
| "deriv c (Alt r s) = Alt (deriv c r) (deriv c s)"
| "deriv c (Star r) = Seq (deriv c r) (Star r)"

fun test :: "rx \<Rightarrow> jsstring \<Rightarrow> bool" where
  "test r [] = nullable r"
| "test r (c # cs) = test (deriv c r) cs"

text \<open>The class of the name pattern: \<open>a-z\<close>, \<open>A-Z\<close>, the twelve accented letters (U+00E1, U+00E9,
  U+00ED, U+00F3, U+00FA, U+00C1, U+00C9, U+00CD, U+00D3, U+00DA, U+00F1, U+00D1; single code units
  in the source file) and \<open>\s\<close>.\<close>

definition nameClass :: "char16 \<Rightarrow> bool" where
  "nameClass c =
     ((0x61 \<le> c \<and> c \<le> 0x7A) \<or> (0x41 \<le> c \<and> c \<le> 0x5A) \<or>
      c = 0xE1 \<or> c = 0xE9 \<or> c = 0xED \<or> c = 0xF3 \<or> c = 0xFA \<or>
      c = 0xC1 \<or> c = 0xC9 \<or> c = 0xCD \<or> c = 0xD3 \<or> c = 0xDA \<or>
      c = 0xF1 \<or> c = 0xD1 \<or> isWhiteSpace c)"

text \<open>\<open>[^\s@]\<close>\<close>

definition notSpaceAt :: "char16 \<Rightarrow> bool" where
  "notSpaceAt c = (\<not> (isWhiteSpace c \<or> c = 0x40))"

definition isDot :: "char16 \<Rightarrow> bool" where
  "isDot c = (c = 0x2E)"

definition isAt :: "char16 \<Rightarrow> bool" where
  "isAt c = (c = 0x40)"

text \<open>\<open>/^[a-zA-Z...\s]+$/\<close>\<close>

definition namePattern :: rx where
  "namePattern = Plus (Class nameClass)"

text \<open>\<open>/^[^\s@]+@[^\s@]+\.[^\s@]+$/\<close>\<close>

definition emailPattern :: rx where
  "emailPattern =
     Seq (Plus (Class notSpaceAt))
       (Seq (Class isAt)
         (Seq (Plus (Class notSpaceAt))
           (Seq (Class isDot) (Plus (Class notSpaceAt)))))"

section \<open>FORM_CONFIG\<close>

text \<open>
  A rule object and a message object of the configuration; \<open>None\<close> is a property
  the object does not have (reading it gives \<open>undefined\<close>).
\<close>

record rules =
  minLength :: "nat option"
  maxLength :: "nat option"
  pattern :: "rx option"

record messages =
  required :: "jsstring option"
  minLengthMsg :: "jsstring option"
  maxLengthMsg :: "jsstring option"
  patternMsg :: "jsstring option"

record emailjsConfig =
  serviceId :: jsstring
  templateId :: jsstring
  publicKey :: jsstring

record uiConfig =
  submitDelay :: nat
  successMessageDuration :: nat
  errorMessageDuration :: nat

record config =
  emailjs :: emailjsConfig
  validation :: "(jsstring \<times> rules) list"
  errorMessages :: "(jsstring \<times> messages) list"
  ui :: uiConfig

definition FORM_CONFIG :: config where
  "FORM_CONFIG = \<lparr>
     emailjs = \<lparr>
       serviceId = js ''service_rocha_portfolio'',
       templateId = js ''template_contact_form'',
       publicKey = js ''YOUR_EMAILJS_PUBLIC_KEY'' \<rparr>,
     validation = [
       (js ''name'', \<lparr> minLength = Some 2, maxLength = Some 50, pattern = Some namePattern \<rparr>),
       (js ''email'', \<lparr> minLength = None, maxLength = None, pattern = Some emailPattern \<rparr>),
       (js ''subject'', \<lparr> minLength = Some 5, maxLength = Some 100, pattern = None \<rparr>),
       (js ''message'', \<lparr> minLength = Some 10, maxLength = Some 1000, pattern = None \<rparr>)],
     errorMessages = [
       (js ''name'', \<lparr>
          required = Some (js ''El nombre es obligatorio''),
          minLengthMsg = Some (js ''El nombre debe tener al menos 2 caracteres''),
          maxLengthMsg = Some (js ''El nombre no puede exceder 50 caracteres''),
          patternMsg = Some (js ''El nombre solo puede contener letras y espacios'') \<rparr>),
       (js ''email'', \<lparr>
          required = Some (js ''El email es obligatorio''),
          minLengthMsg = None,
          maxLengthMsg = None,
          patternMsg = Some (js (''Por favor ingresa un email v'' @ [CHR 0xE1] @ ''lido'')) \<rparr>),
       (js ''subject'', \<lparr>
          required = Some (js ''El asunto es obligatorio''),
          minLengthMsg = Some (js ''El asunto debe tener al menos 5 caracteres''),
          maxLengthMsg = Some (js ''El asunto no puede exceder 100 caracteres''),
          patternMsg = None \<rparr>),
       (js ''message'', \<lparr>
          required = Some (js ''El mensaje es obligatorio''),
          minLengthMsg = Some (js ''El mensaje debe tener al menos 10 caracteres''),
          maxLengthMsg = Some (js ''El mensaje no puede exceder 1000 caracteres''),
          patternMsg = None \<rparr>)],
     ui = \<lparr> submitDelay = 1000, successMessageDuration = 5000, errorMessageDuration = 7000 \<rparr> \<rparr>"

section \<open>Property access on object literals\<close>

text \<open>
  \<open>FORM_CONFIG.validation\<close>, \<open>FORM_CONFIG.errorMessages\<close> and the validator's
  \<open>errors\<close> are object literals, so their prototype is \<open>Object.prototype\<close>.
  Reading \<open>obj[key]\<close> gives the own property when there is one, else the property
  inherited from \<open>Object.prototype\<close> (a function, or the prototype itself for
  \<open>__proto__\<close>), else \<open>undefined\<close>.  None of the inherited values has a property
  named \<open>minLength\<close>, \<open>maxLength\<close>, \<open>pattern\<close> or \<open>required\<close>.
\<close>

definition objectPrototypeKeys :: "jsstring list" where
  "objectPrototypeKeys = map js
     [''constructor'', ''__defineGetter__'', ''__defineSetter__'', ''hasOwnProperty'',
      ''__lookupGetter__'', ''__lookupSetter__'', ''isPrototypeOf'',
      ''propertyIsEnumerable'', ''toString'', ''valueOf'', ''__proto__'',
      ''toLocaleString'']"

definition noRules :: rules where
  "noRules = \<lparr> minLength = None, maxLength = None, pattern = None \<rparr>"

definition noMessages :: messages where
  "noMessages = \<lparr> required = None, minLengthMsg = None, maxLengthMsg = None, patternMsg = None \<rparr>"

text \<open>\<open>obj[key]\<close>; \<open>inherited\<close> stands for whatever \<open>Object.prototype\<close> holds
  under the key, \<open>None\<close> is \<open>undefined\<close>.\<close>

definition getProp :: "(jsstring \<times> 'a) list \<Rightarrow> 'a \<Rightarrow> jsstring \<Rightarrow> 'a option" where
  "getProp obj inherited key =
     (case map_of obj key of
        Some v \<Rightarrow> Some v
      | None \<Rightarrow> if key \<in> set objectPrototypeKeys then Some inherited else None)"

text \<open>
  The validator's \<open>errors\<close> object: own properties in insertion order, each holding a
  message or \<open>undefined\<close> (\<open>None\<close>).  Assigning to \<open>__proto__\<close> runs the inherited
  setter, which ignores a value that is neither an object nor \<open>null\<close>, so no own
  property appears; \<open>delete\<close> removes an own property only.
\<close>

type_synonym errors = "(jsstring \<times> jsstring option) list"

definition setProp :: "jsstring \<Rightarrow> jsstring option \<Rightarrow> errors \<Rightarrow> errors" where
  "setProp key v errs = (if key = js ''__proto__'' then errs else AList.update key v errs)"

definition deleteProp :: "jsstring \<Rightarrow> errors \<Rightarrow> errors" where
  "deleteProp key errs = AList.delete key errs"

section \<open>FormValidator\<close>

datatype error = TypeError

text \<open>
  \<open>FormValidator.validateField(field)\<close> for a field with \<open>field.name = fieldName\<close> and
  \<open>field.value = rawValue\<close>.  The result is the returned boolean, or the TypeError
  raised by reading a property of \<open>undefined\<close>, together with the \<open>errors\<close> object
  as the call leaves it.  A number is truthy when it is not \<open>0\<close>.
\<close>

definition validateField :: "config \<Rightarrow> jsstring \<Rightarrow> jsstring \<Rightarrow> errors \<Rightarrow> (error + bool) \<times> errors" where
  "validateField cfg fieldName rawValue errs0 =
     (let value = trim rawValue;
          rules = getProp (validation cfg) noRules fieldName;
          messages = getProp (errorMessages cfg) noMessages fieldName;
          errs = deleteProp fieldName errs0
      in if value = [] then
           (case messages of
              None \<Rightarrow> (Inl TypeError, errs)
            | Some m \<Rightarrow> (Inr False, setProp fieldName (required m) errs))
         else
           (case rules of
              None \<Rightarrow> (Inl TypeError, errs)
            | Some r \<Rightarrow>
                if (case minLength r of None \<Rightarrow> False | Some n \<Rightarrow> n \<noteq> 0 \<and> length value < n) then
                  (case messages of
                     None \<Rightarrow> (Inl TypeError, errs)
                   | Some m \<Rightarrow> (Inr False, setProp fieldName (minLengthMsg m) errs))
                else if (case maxLength r of None \<Rightarrow> False | Some n \<Rightarrow> n \<noteq> 0 \<and> length value > n) then
                  (case messages of
                     None \<Rightarrow> (Inl TypeError, errs)
                   | Some m \<Rightarrow> (Inr False, setProp fieldName (maxLengthMsg m) errs))
                else if (case pattern r of None \<Rightarrow> False | Some p \<Rightarrow> \<not> test p value) then
                  (case messages of
                     None \<Rightarrow> (Inl TypeError, errs)
                   | Some m \<Rightarrow> (Inr False, setProp fieldName (patternMsg m) errs))
                else (Inr True, errs)))"

section \<open>The page\<close>

text \<open>
  The state the form code reads and writes, after \<open>initContactForm\<close> has found the
  form and built the validator with \<open>FORM_CONFIG\<close>: the three globals, the
  validator's \<open>errors\<close>, the document around the form, the \<open>lastFormSubmit\<close> key
  of \<open>localStorage\<close>, the pending timers and the calls made to \<open>emailjs.send\<close>.
  The markup is not part of the sources, so the document is a parameter: the
  \<open>input\<close> and \<open>textarea\<close> elements of the form in document order, each under its
  \<open>name\<close>; the elements with id \<open>name-error\<close>, each under the field name; the
  element \<open>form-message\<close> and the button \<open>submit-btn\<close>, which may be absent.
  Scrolling and focus move the viewport only and are left out.
\<close>

record field =
  fvalue :: jsstring
  fdefault :: jsstring
  hasErrorClass :: bool
  ariaInvalid :: bool

record errorElement =
  errText :: jsstring
  errDisplay :: jsstring

record messageElement =
  msgText :: jsstring
  msgClass :: jsstring
  msgDisplay :: jsstring

text \<open>\<open>btnText\<close> and \<open>btnLoading\<close> hold \<open>style.display\<close> of the button's
  \<open>.btn-text\<close> and \<open>.btn-loading\<close> children, \<open>None\<close> when there is no such child.\<close>

record button =
  disabled :: bool
  loading :: bool
  btnText :: "jsstring option"
  btnLoading :: "jsstring option"

datatype timerAction = HideFormMessage | ScrollToMessage | ResolveDemoSend

record timer =
  due :: nat
  action :: timerAction

text \<open>One call \<open>emailjs.send(serviceId, templateId, params)\<close>.\<close>

record emailCall =
  service :: jsstring
  template :: jsstring
  from_name :: jsstring
  from_email :: jsstring
  subject :: jsstring
  message :: jsstring
  timestamp :: jsstring
  reply_to :: jsstring

text \<open>
  \<open>lastFormSubmit\<close> is the number whose decimal rendering the key holds: the only
  writer of the key is \<open>checkRateLimit\<close>, which stores \<open>Date.now().toString()\<close>, and
  \<open>parseInt\<close> of that is the number again.  \<open>None\<close> is an absent key.
\<close>

record page =
  isSubmitting :: bool
  emailjsInitialized :: bool
  errors :: errors
  formFields :: "(jsstring \<times> field) list"
  errorElements :: "(jsstring \<times> errorElement) list"
  formMessage :: "messageElement option"
  submitBtn :: "button option"
  lastFormSubmit :: "nat option"
  timers :: "timer list"
  sent :: "emailCall list"

text \<open>What a handler reads from its surroundings: \<open>Date.now()\<close> (also the clock of the
  timers), \<open>new Date().toLocaleString('es-ES')\<close> and \<open>navigator.userAgent\<close>.\<close>

record env =
  now :: nat
  localeTime :: jsstring
  userAgent :: jsstring

subsection \<open>validateForm\<close>

text \<open>The array \<open>['name', 'email', 'subject', 'message']\<close> of \<open>validateForm\<close>.\<close>

definition fieldNames :: "jsstring list" where
  "fieldNames = map js [''name'', ''email'', ''subject'', ''message'']"

text \<open>
  The \<open>forEach\<close> of \<open>validateForm\<close>: \<open>form.querySelector('[name="..."]')\<close> is the
  first field of that name; a name with no field is skipped; an exception of
  \<open>validateField\<close> ends the loop.
\<close>

fun validateFields ::
  "config \<Rightarrow> (jsstring \<times> field) list \<Rightarrow> jsstring list \<Rightarrow> bool \<Rightarrow> errors \<Rightarrow> (error + bool) \<times> errors" where
  "validateFields cfg form [] isValid errs = (Inr isValid, errs)"
| "validateFields cfg form (fieldName # rest) isValid errs =
     (case map_of form fieldName of
        None \<Rightarrow> validateFields cfg form rest isValid errs
      | Some fld \<Rightarrow>
          (case validateField cfg fieldName (fvalue fld) errs of
             (Inl e, errs') \<Rightarrow> (Inl e, errs')
           | (Inr ok, errs') \<Rightarrow>
               validateFields cfg form rest (if \<not> ok then False else isValid) errs'))"

text \<open>\<open>errs0\<close> is the \<open>errors\<close> object before the call, which \<open>this.errors = {}\<close>
  replaces.\<close>

definition validateForm ::
  "config \<Rightarrow> (jsstring \<times> field) list \<Rightarrow> errors \<Rightarrow> (error + bool) \<times> errors" where
  "validateForm cfg form errs0 = validateFields cfg form fieldNames True []"

subsection \<open>Messages and field errors\<close>

definition successMsg :: jsstring where
  "successMsg =
     js ([CHR 0xA1] @ ''Mensaje enviado correctamente! Te responder'' @ [CHR 0xE9] @ '' pronto.'')"

definition sendFailedMsg :: jsstring where
  "sendFailedMsg = js ''Error al enviar el mensaje. Por favor intenta nuevamente.''"

definition unexpectedMsg :: jsstring where
  "unexpectedMsg =
     js (''Ocurri'' @ [CHR 0xF3] @ '' un error inesperado. Por favor intenta m'' @ [CHR 0xE1] @
         ''s tarde.'')"

definition throttleMsg :: jsstring where
  "throttleMsg = js ''Por favor espera un momento antes de enviar otro mensaje.''"

definition setTimeout :: "nat \<Rightarrow> timerAction \<Rightarrow> nat \<Rightarrow> page \<Rightarrow> page" where
  "setTimeout t act delay p = p\<lparr>timers := timers p @ [\<lparr>due = t + delay, action = act\<rparr>]\<rparr>"

definition showFormMessage :: "nat \<Rightarrow> jsstring \<Rightarrow> jsstring \<Rightarrow> page \<Rightarrow> page" where
  "showFormMessage t msg type p =
     (case formMessage p of
        None \<Rightarrow> p
      | Some el \<Rightarrow>
          (let duration = (if type = js ''success''
                           then successMessageDuration (ui FORM_CONFIG)
                           else errorMessageDuration (ui FORM_CONFIG))
           in setTimeout t HideFormMessage duration
                (p\<lparr>formMessage := Some (el\<lparr>msgText := msg,
                                            msgClass := js ''form-message '' @ type,
                                            msgDisplay := js ''block''\<rparr>)\<rparr>)))"

definition hideFormMessage :: "page \<Rightarrow> page" where
  "hideFormMessage p =
     (case formMessage p of
        None \<Rightarrow> p
      | Some el \<Rightarrow>
          p\<lparr>formMessage := Some (el\<lparr>msgDisplay := js ''none'',
                                      msgText := [],
                                      msgClass := js ''form-message''\<rparr>)\<rparr>)"

definition scrollToFormMessage :: "nat \<Rightarrow> page \<Rightarrow> page" where
  "scrollToFormMessage t p =
     (case formMessage p of
        None \<Rightarrow> p
      | Some el \<Rightarrow> if msgDisplay el \<noteq> js ''none'' then setTimeout t ScrollToMessage 100 p else p)"

text \<open>
  \<open>showFieldError(field, message)\<close> and \<open>clearFieldError(field)\<close> for the first field
  named \<open>n\<close>; \<open>getElementById\<close> is the first element under the id.  Assigning
  \<open>undefined\<close> to \<open>textContent\<close> empties it.
\<close>

definition showFieldError :: "jsstring \<Rightarrow> jsstring option \<Rightarrow> page \<Rightarrow> page" where
  "showFieldError n msg p =
     (let els = (case map_of (errorElements p) n of
                   None \<Rightarrow> errorElements p
                 | Some el \<Rightarrow>
                     AList.update n
                       (el\<lparr>errText := (case msg of None \<Rightarrow> [] | Some m \<Rightarrow> m),
                           errDisplay := js ''block''\<rparr>)
                       (errorElements p));
          fs = (case map_of (formFields p) n of
                  None \<Rightarrow> formFields p
                | Some f \<Rightarrow> AList.update n (f\<lparr>hasErrorClass := True, ariaInvalid := True\<rparr>) (formFields p))
      in p\<lparr>errorElements := els, formFields := fs\<rparr>)"

definition clearErrorElement :: "jsstring \<Rightarrow> (jsstring \<times> errorElement) list \<Rightarrow> (jsstring \<times> errorElement) list" where
  "clearErrorElement n els =
     (case map_of els n of
        None \<Rightarrow> els
      | Some el \<Rightarrow> AList.update n (el\<lparr>errText := [], errDisplay := js ''none''\<rparr>) els)"

text \<open>\<open>clearAllFieldErrors\<close>: \<open>clearFieldError\<close> on every \<open>input\<close> and \<open>textarea\<close> of
  the form.\<close>

definition clearAllFieldErrors :: "page \<Rightarrow> page" where
  "clearAllFieldErrors p =
     p\<lparr>errorElements := fold clearErrorElement (map fst (formFields p)) (errorElements p),
       formFields := map (\<lambda>(n, f). (n, f\<lparr>hasErrorClass := False, ariaInvalid := False\<rparr>)) (formFields p)\<rparr>"

text \<open>\<open>displayValidationErrors(errors)\<close>: the keys in insertion order, each shown on the
  first field of that name when there is one.\<close>

definition displayValidationErrors :: "errors \<Rightarrow> page \<Rightarrow> page" where
  "displayValidationErrors errs p =
     fold (\<lambda>(n, msg) q. case map_of (formFields q) n of None \<Rightarrow> q | Some f \<Rightarrow> showFieldError n msg q)
       errs p"

subsection \<open>Submitting\<close>

text \<open>
  \<open>setSubmittingState\<close> assigns the flag first and then touches the button without a
  null check: a missing button raises at \<open>submitBtn.querySelector\<close>, a missing child
  at its \<open>style\<close>, each after the assignments before it.
\<close>

definition setSubmittingState :: "bool \<Rightarrow> page \<Rightarrow> (error + unit) \<times> page" where
  "setSubmittingState submitting p0 =
     (let p = p0\<lparr>isSubmitting := submitting\<rparr>
      in case submitBtn p of
           None \<Rightarrow> (Inl TypeError, p)
         | Some b0 \<Rightarrow>
             (let b = b0\<lparr>disabled := submitting, loading := submitting\<rparr>
              in case btnText b of
                   None \<Rightarrow> (Inl TypeError, p\<lparr>submitBtn := Some b\<rparr>)
                 | Some _ \<Rightarrow>
                     (let b1 = b\<lparr>btnText := Some (if submitting then js ''none'' else js ''inline'')\<rparr>
                      in case btnLoading b1 of
                           None \<Rightarrow> (Inl TypeError, p\<lparr>submitBtn := Some b1\<rparr>)
                         | Some _ \<Rightarrow>
                             (Inr (),
                              p\<lparr>submitBtn := Some (b1\<lparr>btnLoading :=
                                     Some (if submitting then js ''inline-flex'' else js ''none'')\<rparr>)\<rparr>))))"

record formData =
  fdName :: jsstring
  fdEmail :: jsstring
  fdSubject :: jsstring
  fdMessage :: jsstring
  fdTimestamp :: jsstring
  fdUserAgent :: jsstring

text \<open>\<open>getFormData\<close>: \<open>formData.get\<close> is \<open>null\<close> for a name with no field, and
  \<open>null.trim()\<close> raises.\<close>

definition getFormData :: "env \<Rightarrow> page \<Rightarrow> error + formData" where
  "getFormData e p =
     (case map_of (formFields p) (js ''name'') of
        None \<Rightarrow> Inl TypeError
      | Some n \<Rightarrow>
     (case map_of (formFields p) (js ''email'') of
        None \<Rightarrow> Inl TypeError
      | Some m \<Rightarrow>
     (case map_of (formFields p) (js ''subject'') of
        None \<Rightarrow> Inl TypeError
      | Some s \<Rightarrow>
     (case map_of (formFields p) (js ''message'') of
        None \<Rightarrow> Inl TypeError
      | Some b \<Rightarrow>
          Inr \<lparr>fdName = trim (fvalue n), fdEmail = trim (fvalue m),
               fdSubject = trim (fvalue s), fdMessage = trim (fvalue b),
               fdTimestamp = localeTime e, fdUserAgent = userAgent e\<rparr>))))"

text \<open>
  \<open>sendEmail\<close> is an async function with one \<open>await\<close>.  \<open>sendEmail_start\<close> is the part
  before it: in demo mode a timer of 2000 ms whose firing resolves the awaited
  promise, else the call of \<open>emailjs.send\<close>.  \<open>sendEmail_finish\<close> is the part after
  it: the value returned once the awaited promise has settled.  The promise of the
  demo timer can only resolve; a rejection of \<open>emailjs.send\<close>, and an exception it
  raises when called, both reach the \<open>catch\<close>.
\<close>

datatype sendOutcome = Resolved | Rejected | Thrown

definition sendEmail_start :: "formData \<Rightarrow> nat \<Rightarrow> page \<Rightarrow> page" where
  "sendEmail_start d t p =
     (if \<not> emailjsInitialized p then setTimeout t ResolveDemoSend 2000 p
      else p\<lparr>sent := sent p @
             [\<lparr>service = serviceId (emailjs FORM_CONFIG),
               template = templateId (emailjs FORM_CONFIG),
               from_name = fdName d, from_email = fdEmail d, subject = fdSubject d,
               message = fdMessage d, timestamp = fdTimestamp d, reply_to = fdEmail d\<rparr>]\<rparr>)"

fun sendEmail_finish :: "sendOutcome \<Rightarrow> bool" where
  "sendEmail_finish Resolved = True"
| "sendEmail_finish Rejected = False"
| "sendEmail_finish Thrown = False"

definition handleSubmitSuccess :: "nat \<Rightarrow> page \<Rightarrow> page" where
  "handleSubmitSuccess t p =
     (let p1 = p\<lparr>formFields := map (\<lambda>(n, f). (n, f\<lparr>fvalue := fdefault f\<rparr>)) (formFields p)\<rparr>;
          p2 = showFormMessage t successMsg (js ''success'') p1;
          p3 = clearAllFieldErrors p2
      in scrollToFormMessage t p3)"

definition handleSubmitError :: "nat \<Rightarrow> jsstring \<Rightarrow> page \<Rightarrow> page" where
  "handleSubmitError t msg p = scrollToFormMessage t (showFormMessage t msg (js ''error'') p)"

text \<open>
  How a run of the handler ends: it returned, it is suspended at its \<open>await\<close>, or its
  promise was rejected with an exception that nothing caught.
\<close>

datatype outcome = Returned | Awaiting | Threw error

text \<open>The \<open>finally\<close> block, and the \<open>catch\<close> block followed by it.\<close>

definition finallyBlock :: "page \<Rightarrow> outcome \<times> page" where
  "finallyBlock p =
     (case setSubmittingState False p of
        (Inl e, q) \<Rightarrow> (Threw e, q)
      | (Inr _, q) \<Rightarrow> (Returned, q))"

definition catchBlock :: "nat \<Rightarrow> page \<Rightarrow> outcome \<times> page" where
  "catchBlock t p = finallyBlock (handleSubmitError t unexpectedMsg p)"

text \<open>
  \<open>handleFormSubmit\<close> up to its \<open>await\<close>.  \<open>e.preventDefault()\<close> acts on the event
  only.  The validator is \<open>new FormValidator(form, FORM_CONFIG)\<close>.
\<close>

definition handleFormSubmit :: "env \<Rightarrow> page \<Rightarrow> outcome \<times> page" where
  "handleFormSubmit e p =
     (if isSubmitting p then (Returned, p)
      else
        (case validateForm FORM_CONFIG (formFields p) (errors p) of
           (Inl x, errs) \<Rightarrow> catchBlock (now e) (p\<lparr>errors := errs\<rparr>)
         | (Inr False, errs) \<Rightarrow> finallyBlock (displayValidationErrors errs (p\<lparr>errors := errs\<rparr>))
         | (Inr True, errs) \<Rightarrow>
             (case setSubmittingState True (p\<lparr>errors := errs\<rparr>) of
                (Inl x, p1) \<Rightarrow> catchBlock (now e) p1
              | (Inr _, p1) \<Rightarrow>
                  (case getFormData e p1 of
                     Inl x \<Rightarrow> catchBlock (now e) p1
                   | Inr d \<Rightarrow> (Awaiting, sendEmail_start d (now e) p1)))))"

text \<open>
  \<open>handleFormSubmit\<close> from its \<open>await\<close> on, at time \<open>t\<close>, with the value \<open>sendEmail\<close>
  returned.  Nothing in \<open>handleSubmitSuccess\<close> or \<open>handleSubmitError\<close> raises on this
  document, so the \<open>catch\<close> block is not entered here.
\<close>

definition handleFormSubmit_resume :: "nat \<Rightarrow> bool \<Rightarrow> page \<Rightarrow> outcome \<times> page" where
  "handleFormSubmit_resume t success p =
     finallyBlock (if success then handleSubmitSuccess t p
                   else handleSubmitError t sendFailedMsg p)"

text \<open>The promise of \<open>emailjs.send\<close> settles, or the call raised, at time \<open>t\<close>.\<close>

definition sendSettled :: "nat \<Rightarrow> sendOutcome \<Rightarrow> page \<Rightarrow> outcome \<times> page" where
  "sendSettled t out p = handleFormSubmit_resume t (sendEmail_finish out) p"

text \<open>The \<open>keydown\<close> listener, for Enter pressed in a field of the form that is not a
  \<open>textarea\<close>.\<close>

definition handleEnterKey :: "env \<Rightarrow> page \<Rightarrow> outcome \<times> page" where
  "handleEnterKey e p = (if \<not> isSubmitting p then handleFormSubmit e p else (Returned, p))"

text \<open>The \<open>click\<close> listener, for a click outside the form.\<close>

definition handleClickOutside :: "page \<Rightarrow> page" where
  "handleClickOutside p =
     (case formMessage p of
        None \<Rightarrow> p
      | Some el \<Rightarrow> if msgDisplay el \<noteq> js ''none'' then hideFormMessage p else p)"

subsection \<open>Timers\<close>

text \<open>
  The \<open>i\<close>-th pending timer fires at time \<open>t\<close>.  A timer never fires before it is due;
  then, and for an index with no timer, nothing happens.
\<close>

definition fireTimer :: "nat \<Rightarrow> nat \<Rightarrow> page \<Rightarrow> outcome \<times> page" where
  "fireTimer t i p =
     (if i < length (timers p) \<and> due (timers p ! i) \<le> t then
        (let q = p\<lparr>timers := take i (timers p) @ drop (Suc i) (timers p)\<rparr>
         in case action (timers p ! i) of
              HideFormMessage \<Rightarrow> (Returned, hideFormMessage q)
            | ScrollToMessage \<Rightarrow> (Returned, q)
            | ResolveDemoSend \<Rightarrow> handleFormSubmit_resume t (sendEmail_finish Resolved) q)
      else (Returned, p))"

subsection \<open>checkRateLimit\<close>

text \<open>\<open>lastSubmit &&\<close> holds for every stored string of digits.  Nothing in the sources
  calls this function.\<close>

definition checkRateLimit :: "nat \<Rightarrow> page \<Rightarrow> bool \<times> page" where
  "checkRateLimit t p =
     (let minInterval = (60000 :: int)
      in case lastFormSubmit p of
           None \<Rightarrow> (True, p\<lparr>lastFormSubmit := Some t\<rparr>)
         | Some lastSubmit \<Rightarrow>
             if int t - int lastSubmit < minInterval
             then (False, showFormMessage t throttleMsg (js ''error'') p)
             else (True, p\<lparr>lastFormSubmit := Some t\<rparr>))"

section \<open>The validator as the specification words it\<close>

text \<open>
  The procedure of the specification for \<open>validateField\<close>, written from its words to
  be compared with the code: trim; empty fails as \<open>required\<close>; then a \<open>minLength\<close> rule
  that exists and exceeds the trimmed length; then a \<open>maxLength\<close> rule that exists
  and is exceeded; then a \<open>pattern\<close> rule that exists and does not match the whole
  trimmed value; otherwise success.  The outcome carries the message looked up by
  violation kind, and the result mapping loses the field's entry and gains the new
  failure, if any.
\<close>

datatype violation = Required | MinLength | MaxLength | Pattern

definition specVerdict :: "rules \<Rightarrow> jsstring \<Rightarrow> violation option" where
  "specVerdict r raw =
     (let v = trim raw
      in if v = [] then Some Required
         else if (case minLength r of None \<Rightarrow> False | Some n \<Rightarrow> length v < n) then Some MinLength
         else if (case maxLength r of None \<Rightarrow> False | Some n \<Rightarrow> n < length v) then Some MaxLength
         else if (case pattern r of None \<Rightarrow> False | Some p \<Rightarrow> \<not> test p v) then Some Pattern
         else None)"

fun messageFor :: "messages \<Rightarrow> violation \<Rightarrow> jsstring option" where
  "messageFor m Required = required m"
| "messageFor m MinLength = minLengthMsg m"
| "messageFor m MaxLength = maxLengthMsg m"
| "messageFor m Pattern = patternMsg m"

definition specValidateField ::
  "rules \<Rightarrow> messages \<Rightarrow> jsstring \<Rightarrow> jsstring \<Rightarrow> errors \<Rightarrow> (error + bool) \<times> errors" where
  "specValidateField r m fieldName raw errs =
     (case specVerdict r raw of
        None \<Rightarrow> (Inr True, AList.delete fieldName errs)
      | Some k \<Rightarrow> (Inr False, AList.update fieldName (messageFor m k) (AList.delete fieldName errs)))"

section \<open>Sample pages\<close>

text \<open>A page with the four fields filled in validly, an idle button, a hidden message
  element, EmailJS initialised and a submission stored at time 1000.\<close>

definition idleButton :: button where
  "idleButton = \<lparr>disabled = False, loading = False,
                 btnText = Some (js ''inline''), btnLoading = Some (js ''none'')\<rparr>"

definition hiddenMessage :: messageElement where
  "hiddenMessage = \<lparr>msgText = [], msgClass = js ''form-message'', msgDisplay = js ''none''\<rparr>"

definition textField :: "jsstring \<Rightarrow> field" where
  "textField v = \<lparr>fvalue = v, fdefault = [], hasErrorClass = False, ariaInvalid = False\<rparr>"

definition hiddenError :: errorElement where
  "hiddenError = \<lparr>errText = [], errDisplay = js ''none''\<rparr>"

definition validPage :: page where
  "validPage = \<lparr>
     isSubmitting = False,
     emailjsInitialized = True,
     errors = [],
     formFields = [
       (js ''name'', textField (js ''Ana Rocha'')),
       (js ''email'', textField (js ''a@b.co'')),
       (js ''subject'', textField (js ''Hello'')),
       (js ''message'', textField (js ''0123456789''))],
     errorElements = [
       (js ''name'', hiddenError), (js ''email'', hiddenError),
       (js ''subject'', hiddenError), (js ''message'', hiddenError)],
     formMessage = Some hiddenMessage,
     submitBtn = Some idleButton,
     lastFormSubmit = Some 1000,
     timers = [],
     sent = [] \<rparr>"

text \<open>The same page in demo mode with nothing stored.\<close>

definition demoPage :: page where
  "demoPage = validPage\<lparr>emailjsInitialized := False, lastFormSubmit := None\<rparr>"

definition sampleEnv :: env where
  "sampleEnv = \<lparr>now = 2000, localeTime = js ''1/1/1970, 1:00:02'', userAgent = js ''Mozilla/5.0''\<rparr>"

definition sampleData :: formData where
  "sampleData = \<lparr>fdName = js ''Ana Rocha'', fdEmail = js ''a@b.co'', fdSubject = js ''Hello'',
                 fdMessage = js ''0123456789'', fdTimestamp = js ''1/1/1970, 1:00:02'',
                 fdUserAgent = js ''Mozilla/5.0''\<rparr>"

text \<open>The page after an error message shown at time 0 and a success message shown at
  time 6000: the first message's timer is due at 7000, the second's at 11000.\<close>

definition supersededPage :: page where
  "supersededPage =
     showFormMessage 6000 successMsg (js ''success'')
       (showFormMessage 0 sendFailedMsg (js ''error'') demoPage)"

text \<open>The demo page while its submission, started at time 2000, is in flight; the same
  once the demo timer has fired at time 4000; and the demo page without its button.\<close>

definition busyButton :: button where
  "busyButton = \<lparr>disabled = True, loading = True,
                 btnText = Some (js ''none''), btnLoading = Some (js ''inline-flex'')\<rparr>"

definition demoSending :: page where
  "demoSending = demoPage\<lparr>errors := [], isSubmitting := True, submitBtn := Some busyButton,
                          timers := [\<lparr>due = 4000, action = ResolveDemoSend\<rparr>]\<rparr>"

definition demoSettled :: page where
  "demoSettled = snd (fireTimer 4000 0 (snd (handleFormSubmit sampleEnv demoPage)))"

definition noButtonPage :: page where
  "noButtonPage = demoPage\<lparr>submitBtn := None\<rparr>"

section \<open>What one field contributes to the validation result\<close>

text \<open>The entry \<open>validateField\<close> leaves for the first field named \<open>f\<close> when run on its
  own from an empty result: nothing for an absent or valid field.\<close>

definition fieldFailure :: "(jsstring \<times> field) list \<Rightarrow> jsstring \<Rightarrow> errors" where
  "fieldFailure form f =
     (case map_of form f of
        None \<Rightarrow> []
      | Some fld \<Rightarrow> snd (validateField FORM_CONFIG f (fvalue fld) []))"

section \<open>Strings and the configuration\<close>

lemma of_char_bound: "(of_char c :: nat) < 2 ^ 16"
proof -
  have "(of_char (char_of (of_char c :: nat)) :: nat) = of_char c mod 256"
    by (rule of_char_of)
  then have "(of_char c :: nat) = of_char c mod 256" by simp
  moreover have "(of_char c :: nat) mod 256 < 256" by simp
  ultimately have "(of_char c :: nat) < 256" by simp
  then have "(of_char c :: nat) < 65536" by linarith
  then show ?thesis by simp
qed

lemma js_inj: "js a = js b \<longleftrightarrow> a = b"
proof -
  have "inj (\<lambda>c::char. (word_of_nat (of_char c) :: 16 word))"
  proof (rule injI)
    fix x y :: char
    assume h: "(word_of_nat (of_char x) :: 16 word) = word_of_nat (of_char y)"
    from h have "unat (word_of_nat (of_char x) :: 16 word) = unat (word_of_nat (of_char y) :: 16 word)"
      by simp
    then have "(of_char x :: nat) = of_char y"
      using of_char_bound[of x] of_char_bound[of y] by (simp add: unat_of_nat take_bit_nat_eq_self)
    then show "x = y" by simp
  qed
  then show ?thesis unfolding js_def by simp
qed

lemma js_append: "js (a @ b) = js a @ js b"
  by (simp add: js_def)

lemma validation_dom: "fst ` set (validation FORM_CONFIG) = set fieldNames"
  by (simp add: FORM_CONFIG_def fieldNames_def)

lemma errorMessages_dom: "fst ` set (errorMessages FORM_CONFIG) = set fieldNames"
  by (simp add: FORM_CONFIG_def fieldNames_def)

lemma inherited_not_configured: "f \<in> set objectPrototypeKeys \<Longrightarrow> f \<notin> set fieldNames"
  by (auto simp: objectPrototypeKeys_def fieldNames_def js_inj)

lemma validation_keys:
  "map_of (validation FORM_CONFIG) f = Some r \<Longrightarrow>
     f \<in> set fieldNames \<and> f \<noteq> js ''__proto__'' \<and> minLength r \<noteq> Some 0 \<and> maxLength r \<noteq> Some 0"
  by (auto simp: FORM_CONFIG_def fieldNames_def js_inj split: if_splits)

lemma configured:
  "f \<in> set fieldNames \<Longrightarrow>
     \<exists>r m. map_of (validation FORM_CONFIG) f = Some r \<and> map_of (errorMessages FORM_CONFIG) f = Some m"
  by (auto simp: FORM_CONFIG_def fieldNames_def js_inj)

lemma configured_message:
  "map_of (validation FORM_CONFIG) f = Some r \<Longrightarrow> map_of (errorMessages FORM_CONFIG) f = Some m \<Longrightarrow>
   specVerdict r raw = Some k \<Longrightarrow> messageFor m k \<noteq> None"
  by (cases k) (auto simp: FORM_CONFIG_def js_inj specVerdict_def Let_def split: if_splits)

section \<open>The validator\<close>

text \<open>
  For any configuration, the code and the specification's procedure agree on a field
  that has a rule entry and a message entry, is not named \<open>__proto__\<close>, and whose length
  bounds are not \<open>0\<close> (a bound of \<open>0\<close> is falsy, so the code skips it).
\<close>

lemma validateField_general:
  assumes "map_of (validation cfg) f = Some r"
    and "map_of (errorMessages cfg) f = Some m"
    and "f \<noteq> js ''__proto__''"
    and "minLength r \<noteq> Some 0" and "maxLength r \<noteq> Some 0"
  shows "validateField cfg f raw errs = specValidateField r m f raw errs"
  using assms
  by (auto simp: validateField_def specValidateField_def specVerdict_def getProp_def
      setProp_def deleteProp_def Let_def split: option.splits)

lemma update_fresh: "k \<notin> fst ` set al \<Longrightarrow> AList.update k v al = al @ [(k, v)]"
  by (induction al) auto

text \<open>On a result that has no entry for the field, the call appends what it would leave
  on an empty result.\<close>

lemma validateField_fresh:
  assumes "f \<notin> fst ` set errs"
  shows "validateField cfg f raw errs =
           (fst (validateField cfg f raw []), errs @ snd (validateField cfg f raw []))"
  using assms
  by (simp add: validateField_def Let_def setProp_def deleteProp_def update_fresh
      split: option.splits)

lemma validateField_alone:
  assumes "f \<in> set fieldNames"
  shows "\<exists>ok. fst (validateField FORM_CONFIG f raw []) = Inr ok \<and>
           (ok \<longleftrightarrow> snd (validateField FORM_CONFIG f raw []) = []) \<and>
           fst ` set (snd (validateField FORM_CONFIG f raw [])) \<subseteq> {f}"
proof -
  from assms obtain r m where r: "map_of (validation FORM_CONFIG) f = Some r"
    and m: "map_of (errorMessages FORM_CONFIG) f = Some m"
    using configured by blast
  have "validateField FORM_CONFIG f raw [] = specValidateField r m f raw []"
    using validateField_general[OF r m] validation_keys[OF r] by simp
  then show ?thesis
    by (auto simp: specValidateField_def split: option.splits)
qed

text \<open>The loop of \<open>validateForm\<close> over configured, distinct names that the result does
  not mention yet: it never raises, and appends each field's own failure in turn.\<close>

lemma validateFields_char:
  assumes "set ns \<subseteq> set fieldNames" and "distinct ns" and "set ns \<inter> fst ` set errs = {}"
  shows "validateFields FORM_CONFIG form ns valid errs =
           (Inr (valid \<and> concat (map (fieldFailure form) ns) = []),
            errs @ concat (map (fieldFailure form) ns))"
  using assms
proof (induction ns arbitrary: valid errs)
  case Nil
  then show ?case by simp
next
  case (Cons f rest)
  show ?case
  proof (cases "map_of form f")
    case None
    then have "fieldFailure form f = []" by (simp add: fieldFailure_def)
    moreover have "validateFields FORM_CONFIG form (f # rest) valid errs =
                   validateFields FORM_CONFIG form rest valid errs"
      using None by simp
    ultimately show ?thesis using Cons.IH[of errs valid] Cons.prems by auto
  next
    case (Some fld)
    from Cons.prems have fin: "f \<in> set fieldNames" and fresh: "f \<notin> fst ` set errs" by auto
    obtain ok where ok: "fst (validateField FORM_CONFIG f (fvalue fld) []) = Inr ok"
      and iff: "ok \<longleftrightarrow> snd (validateField FORM_CONFIG f (fvalue fld) []) = []"
      and keys: "fst ` set (snd (validateField FORM_CONFIG f (fvalue fld) [])) \<subseteq> {f}"
      using validateField_alone[OF fin] by blast
    have ff: "fieldFailure form f = snd (validateField FORM_CONFIG f (fvalue fld) [])"
      using Some by (simp add: fieldFailure_def)
    have step: "validateField FORM_CONFIG f (fvalue fld) errs = (Inr ok, errs @ fieldFailure form f)"
      using validateField_fresh[OF fresh] ok ff by simp
    have disj: "set rest \<inter> fst ` set (errs @ fieldFailure form f) = {}"
      using Cons.prems keys ff by auto
    have "validateFields FORM_CONFIG form (f # rest) valid errs =
          validateFields FORM_CONFIG form rest (if \<not> ok then False else valid) (errs @ fieldFailure form f)"
      using Some step by simp
    also have "\<dots> = (Inr ((if \<not> ok then False else valid) \<and> concat (map (fieldFailure form) rest) = []),
                     (errs @ fieldFailure form f) @ concat (map (fieldFailure form) rest))"
      using Cons.IH[OF _ _ disj] Cons.prems by simp
    finally show ?thesis using iff ff by auto
  qed
qed

text \<open>
  Claim C2.  For each of the four configured field names and every raw value,
  \<open>validateField\<close> does what the specification's procedure says: it trims, then
  checks required, minLength, maxLength and pattern in this order, stops at the first
  failure and stores that failure's configured message (which exists), replacing
  the field's earlier entry.  In particular a value of blanks for \<open>email\<close>, which has a
  pattern rule, reports the required message, and \<open>" ab "\<close> passes for \<open>name\<close>, whose
  minLength is 2.
\<close>

theorem validateField_precedence:
  assumes "f \<in> fst ` set (validation FORM_CONFIG)"
  shows "(\<exists>r m. map_of (validation FORM_CONFIG) f = Some r \<and>
                map_of (errorMessages FORM_CONFIG) f = Some m \<and>
                validateField FORM_CONFIG f raw errs = specValidateField r m f raw errs \<and>
                (\<forall>k. specVerdict r raw = Some k \<longrightarrow> messageFor m k \<noteq> None)) \<and>
         validateField FORM_CONFIG (js ''email'') (js ''   '') errs =
           (Inr False, AList.update (js ''email'') (Some (js ''El email es obligatorio''))
                         (AList.delete (js ''email'') errs)) \<and>
         validateField FORM_CONFIG (js ''name'') (js '' ab '') errs =
           (Inr True, AList.delete (js ''name'') errs)"
proof -
  from assms have "f \<in> set fieldNames" by (simp add: validation_dom)
  then obtain r m where r: "map_of (validation FORM_CONFIG) f = Some r"
    and m: "map_of (errorMessages FORM_CONFIG) f = Some m"
    using configured by blast
  have eq: "validateField FORM_CONFIG f raw errs = specValidateField r m f raw errs"
    using validateField_general[OF r m] validation_keys[OF r] by simp
  have msg: "\<forall>k. specVerdict r raw = Some k \<longrightarrow> messageFor m k \<noteq> None"
    using configured_message[OF r m] by blast
  have e1: "validateField FORM_CONFIG (js ''email'') (js ''   '') errs =
           (Inr False, AList.update (js ''email'') (Some (js ''El email es obligatorio''))
                         (AList.delete (js ''email'') errs))"
    by (simp add: validateField_def FORM_CONFIG_def getProp_def setProp_def deleteProp_def
        trim_def js_def isWhiteSpace_def Let_def)
  have e2: "validateField FORM_CONFIG (js ''name'') (js '' ab '') errs =
           (Inr True, AList.delete (js ''name'') errs)"
    by (simp add: validateField_def FORM_CONFIG_def getProp_def setProp_def deleteProp_def
        trim_def js_def isWhiteSpace_def namePattern_def Plus_def nameClass_def Let_def)
  show ?thesis using r m eq msg e1 e2 by blast
qed

theorem validateField_precedence_witness:
  "js ''name'' \<in> fst ` set (validation FORM_CONFIG) \<and>
   validateField FORM_CONFIG (js ''name'') (js '' ab '') [] = (Inr True, [])"
proof -
  have h: "js ''name'' \<in> fst ` set (validation FORM_CONFIG)"
    by (simp add: FORM_CONFIG_def)
  show ?thesis using h validateField_precedence[OF h, of "[]" "[]"] by simp
qed

text \<open>
  Claim C9.  \<open>validateForm\<close> discards the result it finds, validates each of the four
  known fields that the form has, each from its current value, and returns true
  exactly when none of them failed; it never raises.  Its outcome is a function of
  the field values alone, so a second call on the same form returns the same
  boolean and the same result.
\<close>

theorem validateForm_idempotent:
  "validateForm FORM_CONFIG form errs0 =
     (Inr (concat (map (fieldFailure form) fieldNames) = []),
      concat (map (fieldFailure form) fieldNames)) \<and>
   validateForm FORM_CONFIG form (snd (validateForm FORM_CONFIG form errs0)) =
     validateForm FORM_CONFIG form errs0 \<and>
   (fst (validateForm FORM_CONFIG form errs0) = Inr True \<longleftrightarrow>
      (\<forall>f \<in> set fieldNames. \<forall>fld. map_of form f = Some fld \<longrightarrow>
         fst (validateField FORM_CONFIG f (fvalue fld) []) = Inr True))"
proof -
  have d: "distinct fieldNames" by (simp add: fieldNames_def js_inj)
  have c: "validateForm FORM_CONFIG form e =
     (Inr (concat (map (fieldFailure form) fieldNames) = []),
      concat (map (fieldFailure form) fieldNames))" for e
    unfolding validateForm_def using validateFields_char[of fieldNames "[]" form True] d by simp
  have one: "fieldFailure form f = [] \<longleftrightarrow>
       (\<forall>fld. map_of form f = Some fld \<longrightarrow> fst (validateField FORM_CONFIG f (fvalue fld) []) = Inr True)"
    if "f \<in> set fieldNames" for f
  proof (cases "map_of form f")
    case None
    then show ?thesis by (simp add: fieldFailure_def)
  next
    case (Some fld)
    then show ?thesis using validateField_alone[OF that, of "fvalue fld"]
      by (auto simp: fieldFailure_def)
  qed
  have "concat (map (fieldFailure form) fieldNames) = [] \<longleftrightarrow>
        (\<forall>f \<in> set fieldNames. fieldFailure form f = [])"
    by auto
  then have iff: "concat (map (fieldFailure form) fieldNames) = [] \<longleftrightarrow>
      (\<forall>f \<in> set fieldNames. \<forall>fld. map_of form f = Some fld \<longrightarrow>
         fst (validateField FORM_CONFIG f (fvalue fld) []) = Inr True)"
    using one by simp
  show ?thesis using c iff by simp
qed

theorem validateForm_idempotent_witness:
  "validateForm FORM_CONFIG (formFields validPage) [(js ''name'', None)] = (Inr True, []) \<and>
   validateForm FORM_CONFIG (formFields validPage)
     (snd (validateForm FORM_CONFIG (formFields validPage) [(js ''name'', None)])) = (Inr True, [])"
proof -
  have v: "validateForm FORM_CONFIG (formFields validPage) [(js ''name'', None)] = (Inr True, [])"
    by code_simp
  have i: "validateForm FORM_CONFIG (formFields validPage)
             (snd (validateForm FORM_CONFIG (formFields validPage) [(js ''name'', None)])) =
           validateForm FORM_CONFIG (formFields validPage) [(js ''name'', None)]"
    by (rule validateForm_idempotent[THEN conjunct2, THEN conjunct1])
  show ?thesis using v i by simp
qed

text \<open>
  Claim C10, as amended.  A field name that is neither a key of the rule table nor
  a property name of \<open>Object.prototype\<close> makes \<open>validateField\<close> raise a TypeError
  for every value, empty or not.  A name that \<open>Object.prototype\<close> defines is not a
  key of the table, yet the call returns: false for a value that is empty after
  trimming, true otherwise.  For the four configured names, which are the keys of
  the table, the call always returns.
\<close>

theorem validateField_unknown_name:
  "(f \<notin> fst ` set (validation FORM_CONFIG) \<and> f \<notin> set objectPrototypeKeys \<longrightarrow>
      fst (validateField FORM_CONFIG f raw errs) = Inl TypeError) \<and>
   (f \<in> set objectPrototypeKeys \<longrightarrow>
      f \<notin> fst ` set (validation FORM_CONFIG) \<and>
      fst (validateField FORM_CONFIG f raw errs) = Inr (trim raw \<noteq> [])) \<and>
   (f \<in> fst ` set (validation FORM_CONFIG) \<longrightarrow>
      (\<exists>ok. fst (validateField FORM_CONFIG f raw errs) = Inr ok)) \<and>
   fst ` set (validation FORM_CONFIG) = set fieldNames"
proof -
  have none: "map_of (validation FORM_CONFIG) f = None \<and> map_of (errorMessages FORM_CONFIG) f = None"
    if "f \<notin> set fieldNames"
    using that validation_dom errorMessages_dom by (simp add: map_of_eq_None_iff)
  have a: "fst (validateField FORM_CONFIG f raw errs) = Inl TypeError"
    if "f \<notin> fst ` set (validation FORM_CONFIG)" "f \<notin> set objectPrototypeKeys"
    using none that by (simp add: validation_dom validateField_def getProp_def Let_def)
  have b: "fst (validateField FORM_CONFIG f raw errs) = Inr (trim raw \<noteq> [])"
    if "f \<in> set objectPrototypeKeys"
    using none[OF inherited_not_configured[OF that]] that
    by (simp add: validateField_def getProp_def Let_def noRules_def noMessages_def)
  have c: "\<exists>ok. fst (validateField FORM_CONFIG f raw errs) = Inr ok"
    if "f \<in> fst ` set (validation FORM_CONFIG)"
  proof -
    from that have "f \<in> set fieldNames" by (simp add: validation_dom)
    then obtain r m where r: "map_of (validation FORM_CONFIG) f = Some r"
      and m: "map_of (errorMessages FORM_CONFIG) f = Some m"
      using configured by blast
    have "validateField FORM_CONFIG f raw errs = specValidateField r m f raw errs"
      using validateField_general[OF r m] validation_keys[OF r] by simp
    then show ?thesis by (cases "specVerdict r raw") (auto simp add: specValidateField_def)
  qed
  show ?thesis using a b c inherited_not_configured validation_dom by auto
qed

theorem validateField_unknown_name_witness:
  "js ''phone'' \<notin> fst ` set (validation FORM_CONFIG) \<and> js ''phone'' \<notin> set objectPrototypeKeys \<and>
   fst (validateField FORM_CONFIG (js ''phone'') [] []) = Inl TypeError \<and>
   fst (validateField FORM_CONFIG (js ''phone'') (js ''x'') []) = Inl TypeError \<and>
   js ''toString'' \<in> set objectPrototypeKeys \<and>
   fst (validateField FORM_CONFIG (js ''toString'') [] []) = Inr False \<and>
   js ''email'' \<in> fst ` set (validation FORM_CONFIG) \<and>
   (\<exists>ok. fst (validateField FORM_CONFIG (js ''email'') (js ''x'') []) = Inr ok)"
proof -
  have h1: "js ''phone'' \<notin> fst ` set (validation FORM_CONFIG)"
    by (simp add: FORM_CONFIG_def js_inj)
  have h2: "js ''phone'' \<notin> set objectPrototypeKeys"
    by (simp add: objectPrototypeKeys_def js_inj)
  have h3: "js ''toString'' \<in> set objectPrototypeKeys"
    by (simp add: objectPrototypeKeys_def js_inj)
  have h4: "js ''email'' \<in> fst ` set (validation FORM_CONFIG)"
    by (simp add: FORM_CONFIG_def js_inj)
  have t: "trim [] = []" by (simp add: trim_def)
  show ?thesis
    using h1 h2 h3 h4 t
      validateField_unknown_name[of "js ''phone''" "[]" "[]"]
      validateField_unknown_name[of "js ''phone''" "js ''x''" "[]"]
      validateField_unknown_name[of "js ''toString''" "[]" "[]"]
      validateField_unknown_name[of "js ''email''" "js ''x''" "[]"]
    by simp
qed

text \<open>
  Claim C10 as stated fails for a field named \<open>constructor\<close>: the name is not a key
  of the rule table, and the call returns a verdict on both paths.
\<close>

theorem validateField_inherited_name_counterexample:
  "js ''constructor'' \<notin> fst ` set (validation FORM_CONFIG) \<and>
   validateField FORM_CONFIG (js ''constructor'') (js ''x'') [] = (Inr True, []) \<and>
   validateField FORM_CONFIG (js ''constructor'') [] [] = (Inr False, [(js ''constructor'', None)])"
  by (simp add: FORM_CONFIG_def js_inj validateField_def getProp_def objectPrototypeKeys_def
      noRules_def noMessages_def setProp_def deleteProp_def trim_def)
     (simp add: js_def isWhiteSpace_def)

section \<open>The submission controller\<close>

subsection \<open>The blocks of the handler\<close>

lemma finallyBlock_flag: "\<not> isSubmitting (snd (finallyBlock p))"
  by (simp add: finallyBlock_def setSubmittingState_def Let_def split: option.splits)

lemma finallyBlock_not_awaiting: "fst (finallyBlock p) \<noteq> Awaiting"
  by (simp add: finallyBlock_def setSubmittingState_def Let_def split: option.splits)

lemma finallyBlock_formFields: "formFields (snd (finallyBlock p)) = formFields p"
  by (simp add: finallyBlock_def setSubmittingState_def Let_def split: option.splits)

lemma finallyBlock_formMessage: "formMessage (snd (finallyBlock p)) = formMessage p"
  by (simp add: finallyBlock_def setSubmittingState_def Let_def split: option.splits)

lemma finallyBlock_frame:
  "errorElements (snd (finallyBlock p)) = errorElements p"
  "lastFormSubmit (snd (finallyBlock p)) = lastFormSubmit p"
  "sent (snd (finallyBlock p)) = sent p"
  by (simp_all add: finallyBlock_def setSubmittingState_def Let_def split: option.splits)

lemma setSubmittingState_flag: "isSubmitting (snd (setSubmittingState b p)) = b"
  by (simp add: setSubmittingState_def Let_def split: option.splits)

lemma setSubmittingState_result: "setSubmittingState b p = (r, q) \<Longrightarrow> isSubmitting q = b"
  using setSubmittingState_flag[of b p] by simp

lemma sendEmail_start_flag: "isSubmitting (sendEmail_start d t p) = isSubmitting p"
  by (simp add: sendEmail_start_def setTimeout_def)

lemma sendEmail_start_demo:
  "\<not> emailjsInitialized p \<Longrightarrow>
   sendEmail_start d t p = p\<lparr>timers := timers p @ [\<lparr>due = t + 2000, action = ResolveDemoSend\<rparr>]\<rparr>"
  by (simp add: sendEmail_start_def setTimeout_def)

lemma showFormMessage_Some:
  "formMessage p = Some el \<Longrightarrow>
   showFormMessage t msg ty p =
     p\<lparr>formMessage := Some (el\<lparr>msgText := msg, msgClass := js ''form-message '' @ ty,
                                 msgDisplay := js ''block''\<rparr>),
       timers := timers p @ [\<lparr>due = t + (if ty = js ''success'' then 5000 else 7000),
                               action = HideFormMessage\<rparr>]\<rparr>"
  by (simp add: showFormMessage_def setTimeout_def FORM_CONFIG_def Let_def)

lemma handleSubmitError_formFields: "formFields (handleSubmitError t msg p) = formFields p"
  by (simp add: handleSubmitError_def scrollToFormMessage_def showFormMessage_def setTimeout_def
      Let_def split: option.splits)

lemma handleSubmitError_formMessage:
  "formMessage p = Some el \<Longrightarrow>
   formMessage (handleSubmitError t msg p) =
     Some (el\<lparr>msgText := msg, msgClass := js ''form-message error'', msgDisplay := js ''block''\<rparr>)"
  by (simp add: handleSubmitError_def scrollToFormMessage_def showFormMessage_def setTimeout_def
      Let_def js_append[symmetric] split: option.splits)

lemma handleSubmitSuccess_formFields:
  "formFields (handleSubmitSuccess t p) =
     map (\<lambda>(n, f). (n, f\<lparr>fvalue := fdefault f, hasErrorClass := False, ariaInvalid := False\<rparr>))
       (formFields p)"
  by (auto simp: handleSubmitSuccess_def showFormMessage_def scrollToFormMessage_def
      clearAllFieldErrors_def setTimeout_def Let_def split: option.splits)

lemma handleSubmitSuccess_errorElements:
  "errorElements (handleSubmitSuccess t p) =
     fold clearErrorElement (map fst (formFields p)) (errorElements p)"
proof -
  have "fst \<circ> (\<lambda>(n :: jsstring, f :: field). (n, f\<lparr>fvalue := fdefault f\<rparr>)) = fst"
    by (auto simp: fun_eq_iff)
  then show ?thesis
    by (auto simp: handleSubmitSuccess_def showFormMessage_def scrollToFormMessage_def
        clearAllFieldErrors_def setTimeout_def Let_def split: option.splits)
qed

lemma handleSubmitSuccess_formMessage:
  "formMessage p = Some el \<Longrightarrow>
   formMessage (handleSubmitSuccess t p) =
     Some (el\<lparr>msgText := successMsg, msgClass := js ''form-message success'',
              msgDisplay := js ''block''\<rparr>)"
  by (simp add: handleSubmitSuccess_def showFormMessage_def scrollToFormMessage_def
      clearAllFieldErrors_def setTimeout_def Let_def js_append[symmetric])

lemma handleSubmitSuccess_storage: "lastFormSubmit (handleSubmitSuccess t p) = lastFormSubmit p"
  by (simp add: handleSubmitSuccess_def showFormMessage_def scrollToFormMessage_def
      clearAllFieldErrors_def setTimeout_def Let_def split: option.splits)

lemma getFormData_cong:
  assumes "formFields q = formFields p"
  shows "getFormData e q = getFormData e p"
  unfolding getFormData_def assms ..

text \<open>The run of the handler on an idle page that validates and has its button and its
  four fields: it ends suspended at the \<open>await\<close>, with the send started.\<close>

lemma handleFormSubmit_sends:
  assumes "\<not> isSubmitting p"
    and "validateForm FORM_CONFIG (formFields p) (errors p) = (Inr True, errs)"
    and "submitBtn p = Some b" and "btnText b = Some x" and "btnLoading b = Some y"
    and "getFormData e p = Inr d"
  shows "handleFormSubmit e p =
     (Awaiting,
      sendEmail_start d (now e)
        (p\<lparr>errors := errs, isSubmitting := True,
           submitBtn := Some (b\<lparr>disabled := True, loading := True, btnText := Some (js ''none''),
                                 btnLoading := Some (js ''inline-flex'')\<rparr>)\<rparr>))"
proof -
  define p2 where "p2 = p\<lparr>errors := errs, isSubmitting := True,
           submitBtn := Some (b\<lparr>disabled := True, loading := True, btnText := Some (js ''none''),
                                 btnLoading := Some (js ''inline-flex'')\<rparr>)\<rparr>"
  have s: "setSubmittingState True (p\<lparr>errors := errs\<rparr>) = (Inr (), p2)"
    using assms(3,4,5) by (simp add: setSubmittingState_def Let_def p2_def)
  have "formFields p2 = formFields p" by (simp add: p2_def)
  then have g: "getFormData e p2 = Inr d"
    using getFormData_cong[of p2 p e] assms(6) by simp
  have "handleFormSubmit e p = (Awaiting, sendEmail_start d (now e) p2)"
    using assms(1,2) s g by (simp add: handleFormSubmit_def)
  then show ?thesis by (simp add: p2_def)
qed

text \<open>Without the button, \<open>setSubmittingState(true)\<close> raises and the handler does not
  reach the send.\<close>

lemma handleFormSubmit_no_button: "submitBtn p = None \<Longrightarrow> fst (handleFormSubmit e p) \<noteq> Awaiting"
  by (auto simp: handleFormSubmit_def setSubmittingState_def Let_def catchBlock_def
      finallyBlock_not_awaiting split: prod.splits sum.splits bool.splits)

subsection \<open>The sample pages\<close>

lemma validPage_sel:
  "\<not> isSubmitting validPage" "emailjsInitialized validPage" "errors validPage = []"
  "submitBtn validPage = Some idleButton" "lastFormSubmit validPage = Some 1000"
  "sent validPage = []" "timers validPage = []" "formMessage validPage = Some hiddenMessage"
  by (simp_all add: validPage_def)

lemma demoPage_sel:
  "\<not> isSubmitting demoPage" "\<not> emailjsInitialized demoPage" "errors demoPage = []"
  "submitBtn demoPage = Some idleButton" "lastFormSubmit demoPage = None"
  "sent demoPage = []" "timers demoPage = []" "formMessage demoPage = Some hiddenMessage"
  by (simp_all add: demoPage_def validPage_def)

lemma idleButton_sel:
  "btnText idleButton = Some (js ''inline'')" "btnLoading idleButton = Some (js ''none'')"
  by (simp_all add: idleButton_def)

lemma sampleEnv_now: "now sampleEnv = 2000"
  by (simp add: sampleEnv_def)

lemma validPage_validates: "validateForm FORM_CONFIG (formFields validPage) errs = (Inr True, [])"
  unfolding validateForm_def by code_simp

lemma demoPage_validates: "validateForm FORM_CONFIG (formFields demoPage) errs = (Inr True, [])"
  using validPage_validates by (simp add: demoPage_def)

lemma getFormData_validPage: "\<exists>d. getFormData e validPage = Inr d"
  by (simp add: getFormData_def validPage_def js_inj)

lemma getFormData_demoPage: "\<exists>d. getFormData e demoPage = Inr d"
  by (simp add: getFormData_def demoPage_def validPage_def js_inj)

lemma handleFormSubmit_demoPage: "handleFormSubmit sampleEnv demoPage = (Awaiting, demoSending)"
proof -
  obtain d where d: "getFormData sampleEnv demoPage = Inr d"
    using getFormData_demoPage by blast
  have v: "validateForm FORM_CONFIG (formFields demoPage) (errors demoPage) = (Inr True, [])"
    by (rule demoPage_validates)
  show ?thesis
    using handleFormSubmit_sends[OF demoPage_sel(1) v demoPage_sel(4) idleButton_sel d]
    by (simp add: sampleEnv_now sendEmail_start_demo demoPage_sel demoSending_def busyButton_def
        idleButton_def)
qed

lemma demoSending_sel:
  "isSubmitting demoSending" "timers demoSending = [\<lparr>due = 4000, action = ResolveDemoSend\<rparr>]"
  "sent demoSending = []" "formMessage demoSending = Some hiddenMessage"
  "lastFormSubmit demoSending = None" "submitBtn demoSending = Some busyButton"
  "formFields demoSending = formFields demoPage" "errorElements demoSending = errorElements demoPage"
  by (simp_all add: demoSending_def demoPage_sel)

lemma supersededPage_timers:
  "timers supersededPage =
     [\<lparr>due = 7000, action = HideFormMessage\<rparr>, \<lparr>due = 11000, action = HideFormMessage\<rparr>]"
  by (simp add: supersededPage_def showFormMessage_Some demoPage_sel js_inj)

lemma supersededPage_formMessage:
  "formMessage supersededPage =
     Some \<lparr>msgText = successMsg, msgClass = js ''form-message success'', msgDisplay = js ''block''\<rparr>"
  by (simp add: supersededPage_def showFormMessage_Some demoPage_sel hiddenMessage_def
      js_append[symmetric])

subsection \<open>The rate limiter and the storage\<close>

text \<open>
  \<open>checkRateLimit\<close> on its own: a stored timestamp less than 60000 ms old is rejected
  with the throttling message and the storage is left alone; at exactly 60000 ms,
  later, or with nothing stored, the attempt is admitted and its time stored.  No
  other function writes the key: the submit handler, its continuation and the
  timers leave it as it is.
\<close>

lemma checkRateLimit_rejects:
  "lastFormSubmit p = Some T \<Longrightarrow> t < T + 60000 \<Longrightarrow>
   checkRateLimit t p = (False, showFormMessage t throttleMsg (js ''error'') p)"
  by (simp add: checkRateLimit_def)

lemma checkRateLimit_admits:
  "lastFormSubmit p = None \<or> (lastFormSubmit p = Some T \<and> T + 60000 \<le> t) \<Longrightarrow>
   checkRateLimit t p = (True, p\<lparr>lastFormSubmit := Some t\<rparr>)"
  by (auto simp: checkRateLimit_def)

lemma showFieldError_storage: "lastFormSubmit (showFieldError n msg p) = lastFormSubmit p"
  by (simp add: showFieldError_def Let_def)

lemma displayValidationErrors_storage:
  "lastFormSubmit (displayValidationErrors errs p) = lastFormSubmit p"
proof -
  have "lastFormSubmit (fold (\<lambda>(n, msg) q. case map_of (formFields q) n of None \<Rightarrow> q
            | Some f \<Rightarrow> showFieldError n msg q) errs p) = lastFormSubmit p"
    by (induction errs arbitrary: p) (auto simp: showFieldError_storage split: option.splits)
  then show ?thesis by (simp add: displayValidationErrors_def)
qed

lemma handleSubmitError_storage: "lastFormSubmit (handleSubmitError t msg p) = lastFormSubmit p"
  by (simp add: handleSubmitError_def scrollToFormMessage_def showFormMessage_def setTimeout_def
      Let_def split: option.splits)

lemma setSubmittingState_storage: "lastFormSubmit (snd (setSubmittingState b p)) = lastFormSubmit p"
  by (simp add: setSubmittingState_def Let_def split: option.splits)

lemma setSubmittingState_storage_result:
  "setSubmittingState b p = (r, q) \<Longrightarrow> lastFormSubmit q = lastFormSubmit p"
  using setSubmittingState_storage[of b p] by simp

lemma sendEmail_start_storage: "lastFormSubmit (sendEmail_start d t p) = lastFormSubmit p"
  by (simp add: sendEmail_start_def setTimeout_def)

lemma handleFormSubmit_storage: "lastFormSubmit (snd (handleFormSubmit e p)) = lastFormSubmit p"
  by (auto simp: handleFormSubmit_def catchBlock_def finallyBlock_frame handleSubmitError_storage
      displayValidationErrors_storage sendEmail_start_storage
      dest!: setSubmittingState_storage_result
      split: prod.splits sum.splits bool.splits)

lemma handleFormSubmit_resume_storage:
  "lastFormSubmit (snd (handleFormSubmit_resume t ok p)) = lastFormSubmit p"
  by (simp add: handleFormSubmit_resume_def finallyBlock_frame handleSubmitError_storage
      handleSubmitSuccess_storage)

lemma fireTimer_storage: "lastFormSubmit (snd (fireTimer t i p)) = lastFormSubmit p"
  by (simp add: fireTimer_def Let_def handleFormSubmit_resume_storage hideFormMessage_def
      split: timerAction.splits option.splits)

subsection \<open>The claims about the controller\<close>

text \<open>
  Claim C1, at the failing input.  The page holds a submission stored at time 1000
  and the valid form is submitted at time 2000, 1000 ms later.  \<open>checkRateLimit\<close>
  would reject, but the handler does not call it: the run ends suspended at the
  send, with the in-flight flag set, one call of \<open>emailjs.send\<close> made and no message
  shown.
\<close>

theorem rate_limit_not_consulted:
  "lastFormSubmit validPage = Some 1000 \<and> now sampleEnv = 2000 \<and>
   fst (checkRateLimit (now sampleEnv) validPage) = False \<and>
   fst (handleFormSubmit sampleEnv validPage) = Awaiting \<and>
   isSubmitting (snd (handleFormSubmit sampleEnv validPage)) \<and>
   length (sent (snd (handleFormSubmit sampleEnv validPage))) = 1 \<and>
   formMessage (snd (handleFormSubmit sampleEnv validPage)) = formMessage validPage \<and>
   lastFormSubmit (snd (handleFormSubmit sampleEnv validPage)) = Some 1000"
proof -
  obtain d where d: "getFormData sampleEnv validPage = Inr d"
    using getFormData_validPage by blast
  have v: "validateForm FORM_CONFIG (formFields validPage) (errors validPage) = (Inr True, [])"
    by (rule validPage_validates)
  have c: "fst (checkRateLimit (now sampleEnv) validPage) = False"
    by (simp add: sampleEnv_now checkRateLimit_def validPage_sel)
  note h = handleFormSubmit_sends[OF validPage_sel(1) v validPage_sel(4) idleButton_sel d]
  show ?thesis
    using c sampleEnv_now by (simp add: h sendEmail_start_def validPage_sel)
qed

text \<open>
  Claim C3.  Whatever the page looks like when the handler resumes after its
  \<open>await\<close>, and whether \<open>sendEmail\<close> returned true or false (the send resolved, was
  rejected or raised, or the demo timer fired), the in-flight flag is false
  afterwards, also when the \<open>finally\<close> block itself raises.  A run that starts with
  the flag false and does not reach the send ends with the flag false; one that
  reaches the send leaves it true until the handler resumes.
\<close>

theorem in_flight_flag_released:
  "\<not> isSubmitting (snd (handleFormSubmit_resume t success p)) \<and>
   \<not> isSubmitting (snd (sendSettled t out p)) \<and>
   (i < length (timers p) \<and> due (timers p ! i) \<le> t \<and> action (timers p ! i) = ResolveDemoSend \<longrightarrow>
      \<not> isSubmitting (snd (fireTimer t i p))) \<and>
   (\<not> isSubmitting p \<and> fst (handleFormSubmit e p) \<noteq> Awaiting \<longrightarrow>
      \<not> isSubmitting (snd (handleFormSubmit e p))) \<and>
   (\<not> isSubmitting p \<and> fst (handleFormSubmit e p) = Awaiting \<longrightarrow>
      isSubmitting (snd (handleFormSubmit e p)))"
proof -
  have a: "\<not> isSubmitting (snd (handleFormSubmit_resume t s q))" for s q
    by (simp add: handleFormSubmit_resume_def finallyBlock_flag)
  have b: "\<not> isSubmitting (snd (sendSettled t out p))"
    by (simp add: sendSettled_def a)
  have c: "\<not> isSubmitting (snd (fireTimer t i p))"
    if "i < length (timers p)" "due (timers p ! i) \<le> t" "action (timers p ! i) = ResolveDemoSend"
    using that by (simp add: fireTimer_def Let_def a)
  have d: "fst (handleFormSubmit e p) \<noteq> Awaiting \<longrightarrow> \<not> isSubmitting (snd (handleFormSubmit e p))"
    if "\<not> isSubmitting p"
    using that
    by (auto simp: handleFormSubmit_def catchBlock_def finallyBlock_flag
        split: prod.splits sum.splits bool.splits)
  have e: "fst (handleFormSubmit e p) = Awaiting \<longrightarrow> isSubmitting (snd (handleFormSubmit e p))"
    if "\<not> isSubmitting p"
    using that setSubmittingState_result[of True]
    by (auto simp: handleFormSubmit_def catchBlock_def finallyBlock_not_awaiting sendEmail_start_flag
        split: prod.splits sum.splits bool.splits)
  show ?thesis using a b c d e by blast
qed

theorem in_flight_flag_released_witness:
  "\<not> isSubmitting demoPage \<and> fst (handleFormSubmit sampleEnv demoPage) = Awaiting \<and>
   isSubmitting (snd (handleFormSubmit sampleEnv demoPage)) \<and>
   0 < length (timers demoSending) \<and> due (timers demoSending ! 0) \<le> 4000 \<and>
   action (timers demoSending ! 0) = ResolveDemoSend \<and>
   \<not> isSubmitting (snd (fireTimer 4000 0 demoSending)) \<and>
   \<not> isSubmitting (snd (sendSettled 4000 Thrown demoSending)) \<and>
   \<not> isSubmitting noButtonPage \<and> fst (handleFormSubmit sampleEnv noButtonPage) \<noteq> Awaiting \<and>
   \<not> isSubmitting (snd (handleFormSubmit sampleEnv noButtonPage))"
proof -
  have h1: "\<not> isSubmitting demoPage" by (rule demoPage_sel)
  have h2: "fst (handleFormSubmit sampleEnv demoPage) = Awaiting"
    by (simp add: handleFormSubmit_demoPage)
  have h3: "0 < length (timers demoSending) \<and> due (timers demoSending ! 0) \<le> 4000 \<and>
            action (timers demoSending ! 0) = ResolveDemoSend"
    by (simp add: demoSending_sel)
  have h4: "\<not> isSubmitting noButtonPage" by (simp add: noButtonPage_def demoPage_sel)
  have h5: "fst (handleFormSubmit sampleEnv noButtonPage) \<noteq> Awaiting"
    by (rule handleFormSubmit_no_button) (simp add: noButtonPage_def)
  show ?thesis
    using h1 h2 h3 h4 h5
      in_flight_flag_released[of 4000 True demoSending Thrown 0 sampleEnv]
      in_flight_flag_released[of 0 True demoPage Resolved 0 sampleEnv]
      in_flight_flag_released[of 0 True noButtonPage Resolved 0 sampleEnv]
    by blast
qed

text \<open>
  Claim C4.  While the in-flight flag is true a submit event, and Enter pressed in a
  field, leave the page exactly as it is: the validator's result, the calls made to
  \<open>emailjs.send\<close>, the timers, the stored timestamp and the display are unchanged.
\<close>

theorem duplicate_submit_noop:
  "isSubmitting p \<Longrightarrow> handleFormSubmit e p = (Returned, p) \<and> handleEnterKey e p = (Returned, p)"
  by (simp add: handleFormSubmit_def handleEnterKey_def)

theorem duplicate_submit_noop_witness:
  "isSubmitting demoSending \<and> handleFormSubmit sampleEnv demoSending = (Returned, demoSending) \<and>
   sent (snd (handleFormSubmit sampleEnv demoSending)) = []"
proof -
  have h: "isSubmitting demoSending" by (rule demoSending_sel)
  show ?thesis using h duplicate_submit_noop[OF h, of sampleEnv] by (simp add: demoSending_sel)
qed

text \<open>
  Claim C5, at the failing input.  The valid form is submitted in demo mode with
  nothing stored; the demo timer fires at time 4000 and the handler takes the
  success path.  The fields are reset, the field errors cleared and the success
  message shown, but no timestamp reaches the storage: \<open>lastFormSubmit\<close> is still
  absent.
\<close>

theorem success_persists_nothing:
  "lastFormSubmit demoPage = None \<and>
   handleFormSubmit sampleEnv demoPage = (Awaiting, demoSending) \<and>
   timers demoSending = [\<lparr>due = 4000, action = ResolveDemoSend\<rparr>] \<and>
   fst (fireTimer 4000 0 demoSending) = Returned \<and>
   demoSettled = snd (fireTimer 4000 0 demoSending) \<and>
   map (fvalue \<circ> snd) (formFields demoSettled) = [[], [], [], []] \<and>
   map (hasErrorClass \<circ> snd) (formFields demoSettled) = [False, False, False, False] \<and>
   map snd (errorElements demoSettled) = [hiddenError, hiddenError, hiddenError, hiddenError] \<and>
   formMessage demoSettled =
     Some \<lparr>msgText = successMsg, msgClass = js ''form-message success'', msgDisplay = js ''block''\<rparr> \<and>
   \<not> isSubmitting demoSettled \<and>
   lastFormSubmit demoSettled = None"
proof -
  define p1 where "p1 = demoSending\<lparr>timers := []\<rparr>"
  have f: "fireTimer 4000 0 demoSending = finallyBlock (handleSubmitSuccess 4000 p1)"
    by (simp add: fireTimer_def handleFormSubmit_resume_def demoSending_sel p1_def)
  have s: "demoSettled = snd (finallyBlock (handleSubmitSuccess 4000 p1))"
    by (simp add: demoSettled_def handleFormSubmit_demoPage f)
  have sb: "submitBtn (handleSubmitSuccess 4000 p1) = Some busyButton"
    by (simp add: handleSubmitSuccess_def showFormMessage_def scrollToFormMessage_def
        clearAllFieldErrors_def setTimeout_def Let_def p1_def demoSending_sel split: option.splits)
  have c0: "fst (fireTimer 4000 0 demoSending) = Returned"
    using sb by (simp add: f finallyBlock_def setSubmittingState_def busyButton_def)
  have ff: "formFields demoSettled =
     map (\<lambda>(n, f). (n, f\<lparr>fvalue := fdefault f, hasErrorClass := False, ariaInvalid := False\<rparr>))
       (formFields demoPage)"
    by (simp add: s finallyBlock_formFields handleSubmitSuccess_formFields p1_def demoSending_sel)
  have ee: "errorElements demoSettled =
     fold clearErrorElement (map fst (formFields demoPage)) (errorElements demoPage)"
    by (simp add: s finallyBlock_frame handleSubmitSuccess_errorElements p1_def demoSending_sel)
  have mm: "formMessage demoSettled =
     Some \<lparr>msgText = successMsg, msgClass = js ''form-message success'', msgDisplay = js ''block''\<rparr>"
    by (simp add: s finallyBlock_formMessage
        handleSubmitSuccess_formMessage[of _ hiddenMessage] p1_def demoSending_sel
        hiddenMessage_def)
  have c1: "map (fvalue \<circ> snd) (formFields demoSettled) = [[], [], [], []]"
    by (simp add: ff demoPage_def validPage_def textField_def)
  have c2: "map (hasErrorClass \<circ> snd) (formFields demoSettled) = [False, False, False, False]"
    by (simp add: ff demoPage_def validPage_def textField_def)
  have c3: "map snd (errorElements demoSettled) = [hiddenError, hiddenError, hiddenError, hiddenError]"
    by (simp add: ee demoPage_def validPage_def clearErrorElement_def js_inj hiddenError_def)
  have c4: "\<not> isSubmitting demoSettled" by (simp add: s finallyBlock_flag)
  have c5: "lastFormSubmit demoSettled = None"
    by (simp add: s finallyBlock_frame handleSubmitSuccess_storage p1_def demoSending_sel)
  have c6: "demoSettled = snd (fireTimer 4000 0 demoSending)"
    by (simp add: demoSettled_def handleFormSubmit_demoPage)
  show ?thesis
    using c0 c1 c2 c3 c4 c5 c6 mm
    by (simp add: handleFormSubmit_demoPage demoPage_sel demoSending_sel)
qed

text \<open>
  Claim C6, as amended.  An auto-dismiss timer that fires runs \<open>hideFormMessage\<close>,
  which makes no check of whose message is shown: whatever the message element
  holds at that moment is hidden and emptied.
\<close>

theorem stale_timer_hides_message:
  "i < length (timers p) \<Longrightarrow> due (timers p ! i) \<le> t \<Longrightarrow> action (timers p ! i) = HideFormMessage \<Longrightarrow>
   formMessage p = Some el \<Longrightarrow>
   fst (fireTimer t i p) = Returned \<and>
   formMessage (snd (fireTimer t i p)) =
     Some (el\<lparr>msgDisplay := js ''none'', msgText := [], msgClass := js ''form-message''\<rparr>)"
  by (simp add: fireTimer_def hideFormMessage_def Let_def)

theorem stale_timer_hides_message_witness:
  "0 < length (timers supersededPage) \<and> due (timers supersededPage ! 0) \<le> 7000 \<and>
   action (timers supersededPage ! 0) = HideFormMessage \<and>
   msgText (the (formMessage supersededPage)) = successMsg \<and>
   formMessage (snd (fireTimer 7000 0 supersededPage)) =
     Some \<lparr>msgText = [], msgClass = js ''form-message'', msgDisplay = js ''none''\<rparr>"
proof -
  note t = supersededPage_timers
  note m = supersededPage_formMessage
  have h1: "0 < length (timers supersededPage)" using t by simp
  have h2: "due (timers supersededPage ! 0) \<le> 7000" using t by simp
  have h3: "action (timers supersededPage ! 0) = HideFormMessage" using t by simp
  show ?thesis
    using h1 h2 h3 m stale_timer_hides_message[OF h1 h2 h3 m] by simp
qed

text \<open>
  Claim C6 as stated fails.  An error message is shown at time 0 and a success
  message at time 6000.  At time 7000 the timer of the error message fires, after
  the success message has superseded it, and hides the success message.
\<close>

theorem stale_timer_counterexample:
  "timers supersededPage =
     [\<lparr>due = 7000, action = HideFormMessage\<rparr>, \<lparr>due = 11000, action = HideFormMessage\<rparr>] \<and>
   formMessage supersededPage =
     Some \<lparr>msgText = successMsg, msgClass = js ''form-message success'', msgDisplay = js ''block''\<rparr> \<and>
   formMessage (snd (fireTimer 7000 0 supersededPage)) =
     Some \<lparr>msgText = [], msgClass = js ''form-message'', msgDisplay = js ''none''\<rparr> \<and>
   snd (fireTimer 7000 0 supersededPage) \<noteq> supersededPage\<lparr>timers := [\<lparr>due = 11000, action = HideFormMessage\<rparr>]\<rparr>"
proof -
  have f: "formMessage (snd (fireTimer 7000 0 supersededPage)) =
     Some \<lparr>msgText = [], msgClass = js ''form-message'', msgDisplay = js ''none''\<rparr>"
    by (simp add: fireTimer_def hideFormMessage_def supersededPage_timers
        supersededPage_formMessage)
  have "formMessage (snd (fireTimer 7000 0 supersededPage)) \<noteq>
        formMessage (supersededPage\<lparr>timers := [\<lparr>due = 11000, action = HideFormMessage\<rparr>]\<rparr>)"
    by (simp add: f supersededPage_formMessage js_inj)
  then have "snd (fireTimer 7000 0 supersededPage) \<noteq>
        supersededPage\<lparr>timers := [\<lparr>due = 11000, action = HideFormMessage\<rparr>]\<rparr>"
    by metis
  then show ?thesis using f supersededPage_timers supersededPage_formMessage by simp
qed

text \<open>
  Claim C7.  When the send is rejected or raises, \<open>sendEmail\<close> returns false and the
  handler leaves every field of the form as it was and shows the generic error
  message in the message element; the form is not reset.  The same holds when an
  exception inside the handler reaches its \<open>catch\<close> block, with the second generic
  message.
\<close>

theorem send_failure_keeps_fields:
  "(out = Rejected \<or> out = Thrown \<longrightarrow>
      formFields (snd (sendSettled t out p)) = formFields p \<and>
      (\<forall>el. formMessage p = Some el \<longrightarrow>
         formMessage (snd (sendSettled t out p)) =
           Some (el\<lparr>msgText := sendFailedMsg, msgClass := js ''form-message error'',
                    msgDisplay := js ''block''\<rparr>))) \<and>
   formFields (snd (catchBlock t p)) = formFields p \<and>
   (\<forall>el. formMessage p = Some el \<longrightarrow>
      formMessage (snd (catchBlock t p)) =
        Some (el\<lparr>msgText := unexpectedMsg, msgClass := js ''form-message error'',
                 msgDisplay := js ''block''\<rparr>))"
proof -
  have r: "sendSettled t out p = finallyBlock (handleSubmitError t sendFailedMsg p)"
    if "out = Rejected \<or> out = Thrown"
    using that by (auto simp: sendSettled_def handleFormSubmit_resume_def)
  show ?thesis
    using r
    by (auto simp: catchBlock_def finallyBlock_formFields finallyBlock_formMessage
        handleSubmitError_formFields handleSubmitError_formMessage)
qed

theorem send_failure_keeps_fields_witness:
  "formMessage demoSending = Some hiddenMessage \<and>
   formFields (snd (sendSettled 4000 Rejected demoSending)) = formFields demoSending \<and>
   formMessage (snd (sendSettled 4000 Rejected demoSending)) =
     Some \<lparr>msgText = sendFailedMsg, msgClass = js ''form-message error'', msgDisplay = js ''block''\<rparr> \<and>
   formFields (snd (sendSettled 4000 Thrown demoSending)) = formFields demoSending"
proof -
  have h: "formMessage demoSending = Some hiddenMessage" by (rule demoSending_sel)
  show ?thesis
    using h send_failure_keeps_fields[of Rejected 4000 demoSending]
      send_failure_keeps_fields[of Thrown 4000 demoSending]
    by (simp add: hiddenMessage_def)
qed

text \<open>
  Claim C8.  In demo mode \<open>sendEmail\<close>, for any payload, calls no collaborator and
  only schedules a timer 2000 ms ahead.  The timer cannot fire earlier; when it
  fires, \<open>sendEmail\<close> returns true and the handler resumes on its success path.
\<close>

theorem demo_mode_send:
  "\<not> emailjsInitialized p \<Longrightarrow>
     sendEmail_start d t p = p\<lparr>timers := timers p @ [\<lparr>due = t + 2000, action = ResolveDemoSend\<rparr>]\<rparr> \<and>
     sent (sendEmail_start d t p) = sent p \<and>
     (\<forall>t'. t' < t + 2000 \<longrightarrow>
        fireTimer t' (length (timers p)) (sendEmail_start d t p) = (Returned, sendEmail_start d t p)) \<and>
     (\<forall>t'. t + 2000 \<le> t' \<longrightarrow>
        fireTimer t' (length (timers p)) (sendEmail_start d t p) = handleFormSubmit_resume t' True p) \<and>
     sendEmail_finish Resolved"
  by (simp add: sendEmail_start_def setTimeout_def fireTimer_def Let_def)

theorem demo_mode_send_witness:
  "\<not> emailjsInitialized demoPage \<and>
   timers (sendEmail_start sampleData 2000 demoPage) = [\<lparr>due = 4000, action = ResolveDemoSend\<rparr>] \<and>
   sent (sendEmail_start sampleData 2000 demoPage) = [] \<and>
   fireTimer 3999 0 (sendEmail_start sampleData 2000 demoPage) =
     (Returned, sendEmail_start sampleData 2000 demoPage) \<and>
   fireTimer 4000 0 (sendEmail_start sampleData 2000 demoPage) =
     handleFormSubmit_resume 4000 True demoPage"
proof -
  have h: "\<not> emailjsInitialized demoPage" by (rule demoPage_sel)
  note w = demo_mode_send[OF h, of sampleData 2000]
  have a: "timers (sendEmail_start sampleData 2000 demoPage) = [\<lparr>due = 4000, action = ResolveDemoSend\<rparr>]"
    using w by (simp add: demoPage_sel)
  have b: "sent (sendEmail_start sampleData 2000 demoPage) = []"
    using w by (simp add: demoPage_sel)
  have c: "fireTimer 3999 0 (sendEmail_start sampleData 2000 demoPage) =
             (Returned, sendEmail_start sampleData 2000 demoPage)"
    using w[THEN conjunct2, THEN conjunct2, THEN conjunct1, rule_format, of 3999]
    by (simp add: demoPage_sel)
  have d: "fireTimer 4000 0 (sendEmail_start sampleData 2000 demoPage) =
             handleFormSubmit_resume 4000 True demoPage"
    using w[THEN conjunct2, THEN conjunct2, THEN conjunct2, THEN conjunct1, rule_format, of 4000]
    by (simp add: demoPage_sel)
  show ?thesis using h a b c d by blast
qed

end
